theory Spec2Isabelle
  imports Complex_Main "HOL-Library.Sublist"
begin

section \<open>Numbers\<close>

text \<open>
  A finite JavaScript number is modelled as an exact \<^typ>\<open>real\<close>: no rounding and no
  overflow. A property that may be \<^verbatim>\<open>undefined\<close> is a \<^typ>\<open>real option\<close>.
  The only operation of the modelled code that leaves the finite numbers is a division
  by zero, so the result of a division is a \<open>jsnum\<close>: a finite number, an infinity
  (its sign is the sign of the zero, which the model does not track) or \<^verbatim>\<open>NaN\<close>.
\<close>

datatype jsnum = Fin real | Infinite | NaN

text \<open>\<^verbatim>\<open>x / y\<close> on finite operands.\<close>

definition js_div :: "real \<Rightarrow> real \<Rightarrow> jsnum" where
  "js_div x y = (if y \<noteq> 0 then Fin (x / y) else if x = 0 then NaN else Infinite)"

text \<open>\<^verbatim>\<open>a * q\<close> with a finite left operand.\<close>

fun js_times :: "real \<Rightarrow> jsnum \<Rightarrow> jsnum" where
  "js_times a (Fin x) = Fin (a * x)"
| "js_times a Infinite = (if a = 0 then NaN else Infinite)"
| "js_times a NaN = NaN"

text \<open>\<^verbatim>\<open>q - b\<close> with a finite right operand.\<close>

fun js_minus :: "jsnum \<Rightarrow> real \<Rightarrow> jsnum" where
  "js_minus (Fin x) b = Fin (x - b)"
| "js_minus Infinite b = Infinite"
| "js_minus NaN b = NaN"

text \<open>\<^verbatim>\<open>v || 0\<close> on a number that may be undefined (a zero is falsy and yields zero as well).\<close>

definition or0 :: "real option \<Rightarrow> real" where
  "or0 v = (case v of None \<Rightarrow> 0 | Some x \<Rightarrow> x)"

text \<open>\<^verbatim>\<open>Number.MAX_VALUE\<close>, the largest finite double.\<close>

definition MAX_VALUE :: real where
  "MAX_VALUE = (2 ^ 53 - 1) * 2 ^ 971"

text \<open>\<^verbatim>\<open>Math.round\<close>: the nearest integer, a tie going up.\<close>

definition Math_round :: "real \<Rightarrow> real" where
  "Math_round x = of_int \<lfloor>x + 1 / 2\<rfloor>"

text \<open>The error that a strict-mode read or write of a property of \<^verbatim>\<open>null\<close> or \<^verbatim>\<open>undefined\<close> throws.\<close>

datatype js_error = TypeError

section \<open>The axis state read by the map series\<close>

record axis =
  axis_min :: "real option"
  transA :: real
  minPixelPadding :: real
  axis_len :: real
  reversed :: bool
  toPixels :: "real \<Rightarrow> real"
  minRange :: "real option"
  options_minRange :: "real option"

text \<open>
  \<open>toPixels\<close> stands for \<^verbatim>\<open>axis.toPixels(value, true)\<close>, a method of the axis class
  that the map series calls and does not define; \<open>options_minRange\<close> is
  \<^verbatim>\<open>axis.options.minRange\<close>.
\<close>

section \<open>Path segments and \<open>MapSeries.translatePath\<close>\<close>

text \<open>
  Modelled from the spec: the segment type \<^verbatim>\<open>SVGPath\<close> is imported by the map series and
  not declared in it. A segment is one of Move, Line, CubicBezier, QuadraticBezier and
  Close, with 2, 2, 6, 4 and 0 coordinates; the tags are the ones \<open>translatePath\<close>
  tests, \<^verbatim>\<open>'M'\<close>, \<^verbatim>\<open>'L'\<close>, \<^verbatim>\<open>'C'\<close>, \<^verbatim>\<open>'Q'\<close> and \<^verbatim>\<open>'Z'\<close>.
\<close>

datatype seg =
  MoveTo real real
  | LineTo real real
  | CurveTo real real real real real real
  | QuadTo real real real real
  | ClosePath

datatype seg_kind = Move | Line | CubicBezier | QuadraticBezier | Close

fun kind_of :: "seg \<Rightarrow> seg_kind" where
  "kind_of (MoveTo x y) = Move"
| "kind_of (LineTo x y) = Line"
| "kind_of (CurveTo a b c d x y) = CubicBezier"
| "kind_of (QuadTo a b x y) = QuadraticBezier"
| "kind_of ClosePath = Close"

text \<open>The coordinate pairs of a segment, in order.\<close>

fun seg_points :: "seg \<Rightarrow> (real \<times> real) list" where
  "seg_points (MoveTo x y) = [(x, y)]"
| "seg_points (LineTo x y) = [(x, y)]"
| "seg_points (CurveTo a b c d x y) = [(a, b), (c, d), (x, y)]"
| "seg_points (QuadTo a b x y) = [(a, b), (x, y)]"
| "seg_points ClosePath = []"

text \<open>
  The body of the \<^verbatim>\<open>forEach\<close> of \<open>translatePath\<close>: one branch for each tag, each pushing
  one segment on \<open>ret\<close>.
\<close>

fun translatePath_step :: "axis \<Rightarrow> axis \<Rightarrow> seg list \<Rightarrow> seg \<Rightarrow> seg list" where
  "translatePath_step xAxis yAxis ret (MoveTo s1 s2) = ret @ [MoveTo
     ((s1 - or0 (axis_min xAxis)) * transA xAxis + minPixelPadding xAxis)
     ((s2 - or0 (axis_min yAxis)) * transA yAxis + minPixelPadding yAxis)]"
| "translatePath_step xAxis yAxis ret (LineTo s1 s2) = ret @ [LineTo
     ((s1 - or0 (axis_min xAxis)) * transA xAxis + minPixelPadding xAxis)
     ((s2 - or0 (axis_min yAxis)) * transA yAxis + minPixelPadding yAxis)]"
| "translatePath_step xAxis yAxis ret (CurveTo s1 s2 s3 s4 s5 s6) = ret @ [CurveTo
     ((s1 - or0 (axis_min xAxis)) * transA xAxis + minPixelPadding xAxis)
     ((s2 - or0 (axis_min yAxis)) * transA yAxis + minPixelPadding yAxis)
     ((s3 - or0 (axis_min xAxis)) * transA xAxis + minPixelPadding xAxis)
     ((s4 - or0 (axis_min yAxis)) * transA yAxis + minPixelPadding yAxis)
     ((s5 - or0 (axis_min xAxis)) * transA xAxis + minPixelPadding xAxis)
     ((s6 - or0 (axis_min yAxis)) * transA yAxis + minPixelPadding yAxis)]"
| "translatePath_step xAxis yAxis ret (QuadTo s1 s2 s3 s4) = ret @ [QuadTo
     ((s1 - or0 (axis_min xAxis)) * transA xAxis + minPixelPadding xAxis)
     ((s2 - or0 (axis_min yAxis)) * transA yAxis + minPixelPadding yAxis)
     ((s3 - or0 (axis_min xAxis)) * transA xAxis + minPixelPadding xAxis)
     ((s4 - or0 (axis_min yAxis)) * transA yAxis + minPixelPadding yAxis)]"
| "translatePath_step xAxis yAxis ret ClosePath = ret @ [ClosePath]"

text \<open>\<open>path\<close> may be undefined; the result is then the empty \<open>ret\<close>.\<close>

definition translatePath :: "axis \<Rightarrow> axis \<Rightarrow> seg list option \<Rightarrow> seg list" where
  "translatePath xAxis yAxis path =
     (case path of
        None \<Rightarrow> []
      | Some p \<Rightarrow> foldl (translatePath_step xAxis yAxis) [] p)"

text \<open>The pixel position of a data coordinate on an axis: \<open>(c - min) * transA + padding\<close>.\<close>

definition to_px :: "axis \<Rightarrow> real \<Rightarrow> real" where
  "to_px a c = (c - or0 (axis_min a)) * transA a + minPixelPadding a"

section \<open>Stock comparison: \<open>Series.prototype.initCompare\<close>\<close>

record compare_series =
  compareValue :: "real option"
  options_compareBase :: "real option"

record compare_point =
  change :: "jsnum option"

text \<open>
  The function that \<open>initCompare\<close> installs as \<open>modifyValue\<close> when \<open>compare\<close> is
  \<^verbatim>\<open>'value'\<close> or \<^verbatim>\<open>'percent'\<close>. It returns the modified value and the point it was
  given, with \<open>change\<close> recorded.
\<close>

definition modifyValue ::
  "string \<Rightarrow> compare_series \<Rightarrow> real option \<Rightarrow> compare_point option
     \<Rightarrow> jsnum \<times> compare_point option" where
  "modifyValue compare s val point =
     (case (val, compareValue s) of
        (Some v, Some cv) \<Rightarrow>
          (let value' =
                 (if compare = ''value'' then Fin (v - cv)
                  else js_minus (js_times 100 (js_div v cv))
                         (if options_compareBase s = Some 100 then 0 else 100))
           in (value', map_option (\<lambda>p. p\<lparr>change := Some value'\<rparr>) point))
      | _ \<Rightarrow> (Fin 0, point))"

text \<open>\<open>initCompare\<close> sets \<open>modifyValue\<close> to that function or to \<^verbatim>\<open>null\<close>.\<close>

definition initCompare ::
  "string option \<Rightarrow>
     (compare_series \<Rightarrow> real option \<Rightarrow> compare_point option \<Rightarrow> jsnum \<times> compare_point option) option"
  where
  "initCompare compare =
     (if compare = Some ''value'' \<or> compare = Some ''percent''
      then Some (modifyValue (the compare)) else None)"

text \<open>
  The two values that the \<^verbatim>\<open>afterGetExtremes\<close> handler hands to \<^verbatim>\<open>arrayMin\<close> and
  \<^verbatim>\<open>arrayMax\<close> when a \<open>modifyValue\<close> is installed.
\<close>

definition afterGetExtremes_extremes ::
  "string \<Rightarrow> compare_series \<Rightarrow> real option \<Rightarrow> real option \<Rightarrow> jsnum list" where
  "afterGetExtremes_extremes compare s dataMin dataMax =
     [fst (modifyValue compare s dataMin None), fst (modifyValue compare s dataMax None)]"

section \<open>The fast transform of \<open>MapSeries.drawPoints\<close>\<close>

record baseTrans =
  originX :: real
  originY :: real
  transAX :: real
  transAY :: real

text \<open>The attributes that \<open>drawPoints\<close> sets on the transform group.\<close>

record group_transform =
  translateX :: real
  translateY :: real
  scaleX :: jsnum
  scaleY :: jsnum

text \<open>
  \<^verbatim>\<open>q > lo && q < hi\<close> for finite \<open>lo\<close> and \<open>hi\<close>: an infinity fails one of the
  two comparisons whatever its sign, and \<^verbatim>\<open>NaN\<close> fails both.
\<close>

fun js_gt_and_lt :: "jsnum \<Rightarrow> real \<Rightarrow> real \<Rightarrow> bool" where
  "js_gt_and_lt (Fin x) lo hi = (x > lo \<and> x < hi)"
| "js_gt_and_lt Infinite lo hi = False"
| "js_gt_and_lt NaN lo hi = False"

text \<open>
  The \<^verbatim>\<open>else\<close> branch of \<open>drawPoints\<close>, taken when \<open>doFullTranslate()\<close> is false: the
  scale and the translation handed to the transform group (animated or set at once).
\<close>

definition fastTransform :: "axis \<Rightarrow> axis \<Rightarrow> baseTrans \<Rightarrow> group_transform" where
  "fastTransform xAxis yAxis bt =
     (let sX = js_div (transA xAxis) (transAX bt);
          sY = js_div (transA yAxis) (transAY bt);
          tX = toPixels xAxis (originX bt);
          tY = toPixels yAxis (originY bt)
      in if js_gt_and_lt sX 0.99 1.01 \<and> js_gt_and_lt sY 0.99 1.01
         then \<lparr>translateX = Math_round tX, translateY = Math_round tY,
               scaleX = Fin 1, scaleY = Fin 1\<rparr>
         else \<lparr>translateX = tX, translateY = tY, scaleX = sX, scaleY = sY\<rparr>)"

section \<open>Map points and \<open>MapSeries.getBox\<close>\<close>

text \<open>
  The fields \<^verbatim>\<open>_minX\<close>, \<^verbatim>\<open>_maxX\<close>, \<^verbatim>\<open>_minY\<close>, \<^verbatim>\<open>_maxY\<close>, \<^verbatim>\<open>_midX\<close> and
  \<^verbatim>\<open>_midY\<close> are written together with \<^verbatim>\<open>_foundBox = true\<close> and nowhere else, so a
  point carries them as one optional record: \<open>None\<close> is a point whose \<^verbatim>\<open>_foundBox\<close> is
  not set.
\<close>

record box_cache =
  c_minX :: real
  c_maxX :: real
  c_minY :: real
  c_maxY :: real
  c_midX :: real
  c_midY :: real

text \<open>
  \<open>path\<close> is the point's path as an array of segments (\<open>None\<close>: no path; an
  empty array is a path, as it is truthy); a path given as a string or as a flat array
  is taken after \<open>getBox\<close> has split it into segments. \<open>hc_middle_x\<close> and \<open>hc_middle_y\<close> are
  \<^verbatim>\<open>properties && properties['hc-middle-x']\<close> and its Y twin.
\<close>

record map_point =
  path :: "seg list option"
  foundBox :: "box_cache option"
  middleX :: "real option"
  middleY :: "real option"
  hc_middle_x :: "real option"
  hc_middle_y :: "real option"
  labelrank :: "real option"
  plotX :: "real option"
  plotY :: "real option"
  shapeType :: "string option"
  shapeArgs_d :: "seg list option"

text \<open>
  \<^verbatim>\<open>seg[seg.length - 2]\<close> and \<^verbatim>\<open>seg[seg.length - 1]\<close> when both are numbers: the last
  coordinate pair of the segment. For \<^verbatim>\<open>['Z']\<close> they are \<^verbatim>\<open>undefined\<close> and \<^verbatim>\<open>'Z'\<close>.
\<close>

fun seg_last_pair :: "seg \<Rightarrow> (real \<times> real) option" where
  "seg_last_pair (MoveTo x y) = Some (x, y)"
| "seg_last_pair (LineTo x y) = Some (x, y)"
| "seg_last_pair (CurveTo a b c d x y) = Some (x, y)"
| "seg_last_pair (QuadTo a b x y) = Some (x, y)"
| "seg_last_pair ClosePath = None"

text \<open>The running \<open>(pointMinX, pointMaxX, pointMinY, pointMaxY)\<close> of one point.\<close>

type_synonym extent = "real \<times> real \<times> real \<times> real"

fun box_step :: "extent \<Rightarrow> seg \<Rightarrow> extent" where
  "box_step (pointMinX, pointMaxX, pointMinY, pointMaxY) s =
     (case seg_last_pair s of
        Some (x, y) \<Rightarrow>
          (min pointMinX x, max pointMaxX x, min pointMinY y, max pointMaxY y)
      | None \<Rightarrow> (pointMinX, pointMaxX, pointMinY, pointMaxY))"

definition path_extent :: "seg list \<Rightarrow> extent" where
  "path_extent p = foldl box_step (MAX_VALUE, - MAX_VALUE, MAX_VALUE, - MAX_VALUE) p"

text \<open>
  Modelled from the spec: \<open>pick\<close> of the utilities, which the series import. It returns
  the first of its arguments that is defined, so that a configured offset or rank is used
  and the default only when none is supplied.
\<close>

definition pick3 :: "real option \<Rightarrow> real option \<Rightarrow> real \<Rightarrow> real" where
  "pick3 a b c = (case a of Some x \<Rightarrow> x | None \<Rightarrow> (case b of Some x \<Rightarrow> x | None \<Rightarrow> c))"

definition pick2 :: "real option \<Rightarrow> real \<Rightarrow> real" where
  "pick2 a c = (case a of Some x \<Rightarrow> x | None \<Rightarrow> c)"

text \<open>
  The block guarded by \<^verbatim>\<open>if (!point._foundBox)\<close>, for a point with path \<open>p\<close>: the
  first time the box is analysed and cached, afterwards the point is left as it is.
  The minima and maxima are those of the code for every path. The mid point and the
  \<open>labelrank\<close> are those of the code as long as the differences and the product are
  doubles; for a path with no end point they overflow in the code, and the mid point and
  the rank are infinite there.
\<close>

definition analyzeBox :: "seg list \<Rightarrow> map_point \<Rightarrow> map_point" where
  "analyzeBox p point =
     (case foundBox point of
        Some c \<Rightarrow> point
      | None \<Rightarrow>
          (case path_extent p of
             (pointMinX, pointMaxX, pointMinY, pointMaxY) \<Rightarrow>
               point\<lparr>foundBox := Some
                   \<lparr>c_minX = pointMinX, c_maxX = pointMaxX,
                    c_minY = pointMinY, c_maxY = pointMaxY,
                    c_midX = pointMinX + (pointMaxX - pointMinX) *
                      pick3 (middleX point) (hc_middle_x point) 0.5,
                    c_midY = pointMinY + (pointMaxY - pointMinY) *
                      pick3 (middleY point) (hc_middle_y point) 0.5\<rparr>,
                 labelrank := Some (pick2 (labelrank point)
                   ((pointMaxX - pointMinX) * (pointMaxY - pointMinY)))\<rparr>))"

text \<open>The local variables of \<open>getBox\<close> that the loop over the points updates.\<close>

record box_acc =
  acc_maxX :: real
  acc_minX :: real
  acc_maxY :: real
  acc_minY :: real
  acc_minRange :: real
  hasBox :: bool

definition box_acc_init :: box_acc where
  "box_acc_init =
     \<lparr>acc_maxX = - MAX_VALUE, acc_minX = MAX_VALUE, acc_maxY = - MAX_VALUE,
      acc_minY = MAX_VALUE, acc_minRange = MAX_VALUE, hasBox = False\<rparr>"

text \<open>
  One round of the \<^verbatim>\<open>forEach\<close> of \<open>getBox\<close>. The points are objects of the array
  that is passed in, so the round returns the point as it has left it.
\<close>

definition getBox_point :: "box_acc \<Rightarrow> map_point \<Rightarrow> box_acc \<times> map_point" where
  "getBox_point acc point =
     (case path point of
        None \<Rightarrow> (acc, point)
      | Some p \<Rightarrow>
          (let point' = analyzeBox p point in
           (case foundBox point' of
              None \<Rightarrow> (acc, point')
            | Some c \<Rightarrow>
                (\<lparr>acc_maxX = max (acc_maxX acc) (c_maxX c),
                  acc_minX = min (acc_minX acc) (c_minX c),
                  acc_maxY = max (acc_maxY acc) (c_maxY c),
                  acc_minY = min (acc_minY acc) (c_minY c),
                  acc_minRange =
                    min (c_maxX c - c_minX c) (min (c_maxY c - c_minY c) (acc_minRange acc)),
                  hasBox = True\<rparr>, point'))))"


text \<open>
  The state of the map series that \<open>getBox\<close>, \<open>doFullTranslate\<close> and \<open>translate\<close>
  read and write.
\<close>

record map_series =
  xAxis :: "axis option"
  yAxis :: "axis option"
  series_minX :: "real option"
  series_maxX :: "real option"
  series_minY :: "real option"
  series_maxY :: "real option"
  data :: "map_point list"
  isDirtyData :: bool
  chart_isResizing :: bool
  renderer_isVML :: bool
  series_baseTrans :: "baseTrans option"




text \<open>
  For the statements about \<open>getBox\<close>: the last coordinate pairs of a path, and the
  widths and heights of the cached boxes of the points that have a path.
\<close>

definition end_points :: "seg list \<Rightarrow> (real \<times> real) list" where
  "end_points p = List.map_filter seg_last_pair p"






section \<open>\<open>MapSeries.translate\<close>\<close>

definition doFullTranslate :: "map_series \<Rightarrow> bool" where
  "doFullTranslate series =
     (isDirtyData series \<or> chart_isResizing series \<or> renderer_isVML series \<or>
      series_baseTrans series = None)"

text \<open>
  One round of the \<^verbatim>\<open>forEach\<close> of \<open>translate\<close>. Reading a property of an axis that is
  undefined throws.
\<close>

definition translate_point :: "map_series \<Rightarrow> bool \<Rightarrow> map_point \<Rightarrow> js_error + map_point" where
  "translate_point series full point =
     (case (case foundBox point of
              None \<Rightarrow> Inr point
            | Some c \<Rightarrow>
                (case (xAxis series, yAxis series) of
                   (Some xa, Some ya) \<Rightarrow>
                     Inr (point\<lparr>plotX := Some (toPixels xa (c_midX c)),
                                plotY := Some (toPixels ya (c_midY c))\<rparr>)
                 | _ \<Rightarrow> Inl TypeError)) of
        Inl e \<Rightarrow> Inl e
      | Inr point1 \<Rightarrow>
          (if full then
             (case (xAxis series, yAxis series) of
                (Some xa, Some ya) \<Rightarrow>
                  Inr (point1\<lparr>shapeType := Some ''path'',
                              shapeArgs_d := Some (translatePath xa ya (path point1))\<rparr>)
              | _ \<Rightarrow> Inl TypeError)
           else Inr point1))"

fun translate_loop :: "map_series \<Rightarrow> bool \<Rightarrow> map_point list \<Rightarrow> js_error + map_point list" where
  "translate_loop series full [] = Inr []"
| "translate_loop series full (point # points) =
     (case translate_point series full point of
        Inl e \<Rightarrow> Inl e
      | Inr point' \<Rightarrow>
          (case translate_loop series full points of
             Inl e \<Rightarrow> Inl e
           | Inr points' \<Rightarrow> Inr (point' # points')))"

text \<open>
  \<open>translate\<close>, on the points that \<open>generatePoints\<close> (a method of the base series)
  has left in \<open>series.data\<close>.
\<close>

definition translate :: "map_series \<Rightarrow> js_error + map_series" where
  "translate series =
     (case translate_loop series (doFullTranslate series) (data series) of
        Inl e \<Rightarrow> Inl e
      | Inr points \<Rightarrow> Inr (series\<lparr>data := points\<rparr>))"

text \<open>The pixel geometry of a point.\<close>

definition pixel_geometry :: "map_point \<Rightarrow> real option \<times> real option \<times> seg list option" where
  "pixel_geometry point = (plotX point, plotY point, shapeArgs_d point)"

section \<open>\<open>ColumnPyramidSeries.translate\<close>\<close>

text \<open>
  What the loop over the points reads from the series, the chart and the y axis.
  \<open>yAxis_toPixels\<close> is \<^verbatim>\<open>yAxis.toPixels(value, true)\<close> and \<open>yAxis_getThreshold\<close> is
  \<^verbatim>\<open>yAxis.getThreshold\<close>, both methods of the axis class; \<open>metrics_width\<close> and
  \<open>metrics_offset\<close> are the result of \<^verbatim>\<open>getColumnMetrics()\<close> and \<open>borderWidth\<close> is the
  picked border width.
\<close>

record pyramid_series =
  chart_inverted :: bool
  chart_plotHeight :: real
  yAxis_len :: real
  yAxis_width :: real
  yAxis_toPixels :: "real \<Rightarrow> real"
  yAxis_getThreshold :: "real \<Rightarrow> real"
  options_threshold :: real
  options_stacking :: "string option"
  options_pointPadding :: "real option"
  metrics_width :: real
  metrics_offset :: real
  borderWidth :: real

text \<open>A point as the column series' \<open>translate\<close> has left it; \<open>point_y\<close> may be \<^verbatim>\<open>null\<close>.\<close>

record pyramid_point =
  point_yBottom :: "real option"
  point_plotX :: real
  point_plotY :: real
  point_total :: "real option"
  point_y :: "real option"

text \<open>
  The values that the loop derives for one point. The corners \<open>x1\<close> to \<open>x4\<close> of the
  path are sums of \<open>barX\<close>, \<open>barW\<close> and the two widths and are not part of the model.
\<close>

record pyramid_shape =
  barX :: real
  barW :: real
  barY :: real
  barH :: real
  topPointY :: real
  stackHeight :: real
  topXwidth :: jsnum
  bottomXwidth :: jsnum

text \<open>
  \<^verbatim>\<open>clamp(value, min, max)\<close> of the utilities, which the series imports: the value, or the
  bound that it passes.
\<close>

definition clamp :: "real \<Rightarrow> real \<Rightarrow> real \<Rightarrow> real" where
  "clamp v lo hi = (if v > lo then (if v < hi then v else hi) else lo)"

text \<open>\<open>translatedThreshold\<close>, lowered by a half in an inverted chart.\<close>

definition translatedThreshold :: "pyramid_series \<Rightarrow> real" where
  "translatedThreshold series =
     (if chart_inverted series
      then yAxis_getThreshold series (options_threshold series) - 0.5
      else yAxis_getThreshold series (options_threshold series))"

definition seriesBarW :: "pyramid_series \<Rightarrow> real" where
  "seriesBarW series =
     (let w = max (metrics_width series) (1 + 2 * borderWidth series)
      in if options_pointPadding series \<noteq> None \<and> options_pointPadding series \<noteq> Some 0
         then of_int \<lceil>w\<rceil> else w)"

text \<open>
  \<^verbatim>\<open>threshold + (point.total || point.y)\<close>, replaced under percent stacking by
  \<^verbatim>\<open>threshold + (point.y < 0) ? -100 : 100\<close>, whose condition is the sum.
\<close>

definition stackTotal :: "pyramid_series \<Rightarrow> pyramid_point \<Rightarrow> real" where
  "stackTotal series point =
     (if options_stacking series = Some ''percent''
      then (if options_threshold series +
               (if (case point_y point of None \<Rightarrow> False | Some v \<Rightarrow> v < 0) then 1 else 0) \<noteq> 0
            then - 100 else 100)
      else options_threshold series +
        (case point_total point of
           Some t \<Rightarrow> if t \<noteq> 0 then t else or0 (point_y point)
         | None \<Rightarrow> or0 (point_y point)))"

text \<open>
  The body of the loop up to the two widths: first the upright pyramid, with the guard
  on a zero \<open>stackHeight\<close>, then the block for an inverted chart, which computes
  \<open>stackHeight\<close> and both widths again.
\<close>

definition pyramid_translate_point :: "pyramid_series \<Rightarrow> pyramid_point \<Rightarrow> pyramid_shape" where
  "pyramid_translate_point series point =
     (let yBottom = pick2 (point_yBottom point) (translatedThreshold series);
          safeDistance = 999 + \<bar>yBottom\<bar>;
          plotY' = clamp (point_plotY point) (- safeDistance) (yAxis_len series + safeDistance);
          barX' = point_plotX point + metrics_offset series;
          barW' = seriesBarW series / 2;
          barY' = min plotY' yBottom;
          barH' = max plotY' yBottom - barY';
          topPointY' = yAxis_toPixels series (stackTotal series point);
          stackHeight' = chart_plotHeight series - topPointY' -
            (chart_plotHeight series - translatedThreshold series);
          topXwidth' = (if stackHeight' \<noteq> 0
            then js_div (barW' * (barY' - topPointY')) stackHeight' else Fin 0);
          bottomXwidth' = (if stackHeight' \<noteq> 0
            then js_div (barW' * (barY' + barH' - topPointY')) stackHeight' else Fin 0)
      in if chart_inverted series then
           (let invBarPos = yAxis_width series - barY';
                stackHeight'' = topPointY' - (yAxis_width series - translatedThreshold series)
            in \<lparr>barX = barX', barW = barW', barY = barY', barH = barH',
                topPointY = topPointY', stackHeight = stackHeight'',
                topXwidth = js_div (barW' * (topPointY' - invBarPos)) stackHeight'',
                bottomXwidth = js_div (barW' * (topPointY' - (invBarPos - barH'))) stackHeight''\<rparr>)
         else \<lparr>barX = barX', barW = barW', barY = barY', barH = barH',
               topPointY = topPointY', stackHeight = stackHeight',
               topXwidth = topXwidth', bottomXwidth = bottomXwidth'\<rparr>)"

section \<open>Values of the join: \<open>MapSeries.setOptions\<close> and \<open>MapSeries.setData\<close>\<close>

text \<open>
  The records that \<open>setData\<close> joins are untyped objects, so they are modelled as
  JavaScript values. The join only tests numbers with \<^verbatim>\<open>isNumber\<close> and turns them into
  property keys, so a number is an integer here. An object is the list of its own
  properties.
\<close>

datatype jsval =
  JUndefined
  | JNull
  | JBool bool
  | JNum int
  | JStr string
  | JArr "jsval list"
  | JObj "(string \<times> jsval) list"

type_synonym obj = "(string \<times> jsval) list"

text \<open>Reading and writing a property of an object.\<close>

definition obj_get :: "obj \<Rightarrow> string \<Rightarrow> jsval" where
  "obj_get ob k = (case map_of ob k of None \<Rightarrow> JUndefined | Some v \<Rightarrow> v)"

fun obj_set :: "string \<Rightarrow> jsval \<Rightarrow> obj \<Rightarrow> obj" where
  "obj_set k v [] = [(k, v)]"
| "obj_set k v ((k', v') # ob) = (if k' = k then (k, v) # ob else (k', v') # obj_set k v ob)"

text \<open>
  \<^verbatim>\<open>v[k]\<close> for a value that is not \<^verbatim>\<open>null\<close> or \<^verbatim>\<open>undefined\<close>: an own property of
  an object, and \<^verbatim>\<open>undefined\<close> otherwise. This is what the code reads for a name \<open>k\<close>
  that no string, number, boolean, array or plain object has as a built-in member
  (\<^verbatim>\<open>'length'\<close>, an index, \<^verbatim>\<open>'constructor'\<close> and the like are such members). All
  built-in members have names of letters, digits, \<^verbatim>\<open>_\<close> and \<^verbatim>\<open>$\<close>, so a name with a
  hyphen, as \<^verbatim>\<open>'hc-key'\<close>, is none, and neither is \<^verbatim>\<open>'_i'\<close>: these are the names of
  \<open>plain_name\<close> below, and the statements about which shapes are used are for them.
\<close>

fun js_get :: "jsval \<Rightarrow> string \<Rightarrow> jsval" where
  "js_get (JObj ob) k = obj_get ob k"
| "js_get v k = JUndefined"

fun js_truthy :: "jsval \<Rightarrow> bool" where
  "js_truthy JUndefined = False"
| "js_truthy JNull = False"
| "js_truthy (JBool b) = b"
| "js_truthy (JNum n) = (n \<noteq> 0)"
| "js_truthy (JStr s) = (s \<noteq> [])"
| "js_truthy (JArr xs) = True"
| "js_truthy (JObj ob) = True"


text \<open>A string that may be undefined is truthy when it is defined and not empty.\<close>

definition str_truthy :: "string option \<Rightarrow> bool" where
  "str_truthy k = (case k of None \<Rightarrow> False | Some s \<Rightarrow> s \<noteq> [])"

text \<open>The property name that a string that may be undefined stands for.\<close>

definition prop_name :: "string option \<Rightarrow> string" where
  "prop_name k = (case k of None \<Rightarrow> ''undefined'' | Some s \<Rightarrow> s)"

text \<open>The decimal numeral of an integer.\<close>

definition digit_char :: "nat \<Rightarrow> char" where
  "digit_char n = ''0123456789'' ! (n mod 10)"

fun string_of_nat :: "nat \<Rightarrow> string" where
  "string_of_nat n =
     (if n < 10 then [digit_char n] else string_of_nat (n div 10) @ [digit_char n])"

declare string_of_nat.simps [simp del]

definition string_of_int :: "int \<Rightarrow> string" where
  "string_of_int i = (if i < 0 then CHR ''-'' # string_of_nat (nat (- i)) else string_of_nat (nat i))"

text \<open>\<^verbatim>\<open>strings.join(sep)\<close>.\<close>

fun join_strings :: "string \<Rightarrow> string list \<Rightarrow> string" where
  "join_strings sep [] = []"
| "join_strings sep [x] = x"
| "join_strings sep (x # y # ys) = x @ sep @ join_strings sep (y # ys)"

text \<open>
  The conversion of a value to a string, as in \<^verbatim>\<open>'|' + v + '|'\<close> and in a property key
  \<^verbatim>\<open>mapMap[v]\<close>. An array is the join of its elements with a comma, where \<^verbatim>\<open>null\<close> and
  \<^verbatim>\<open>undefined\<close> elements are empty. A number is printed as its decimal numeral, which
  is what the code prints for an integer that a double holds exactly and that is below
  \<open>10^21\<close> in size (from there on the code prints an exponent); the statements about
  number keys are for integers up to \<open>2^53\<close> in size.
\<close>

fun js_to_string :: "jsval \<Rightarrow> string" where
  "js_to_string JUndefined = ''undefined''"
| "js_to_string JNull = ''null''"
| "js_to_string (JBool b) = (if b then ''true'' else ''false'')"
| "js_to_string (JNum n) = string_of_int n"
| "js_to_string (JStr s) = s"
| "js_to_string (JArr xs) =
     join_strings '','' (map (\<lambda>x. if x = JUndefined \<or> x = JNull then [] else js_to_string x) xs)"
| "js_to_string (JObj ob) = ''[object Object]''"

text \<open>The string of an element in \<^verbatim>\<open>array.join\<close>.\<close>

definition join_item :: "jsval \<Rightarrow> string" where
  "join_item x = (if x = JUndefined \<or> x = JNull then [] else js_to_string x)"

text \<open>\<^verbatim>\<open>s.split('.')\<close>.\<close>

fun split_dots :: "string \<Rightarrow> string list" where
  "split_dots [] = [[]]"
| "split_dots (c # cs) =
     (if c = CHR ''.'' then [] # split_dots cs
      else (case split_dots cs of [] \<Rightarrow> [[c]] | w # ws \<Rightarrow> (c # w) # ws))"

text \<open>
  Modelled from the spec: \<open>getNestedProperty\<close> of the utilities, which the map series
  imports. It resolves a key by a property lookup that may be nested, the names
  separated by dots: it walks the names from the parent, stops with \<^verbatim>\<open>undefined\<close> at a
  property that is \<^verbatim>\<open>undefined\<close> or \<^verbatim>\<open>null\<close>, and returns a parent that is itself
  \<^verbatim>\<open>undefined\<close> or \<^verbatim>\<open>null\<close> as it is.
\<close>

fun nested_walk :: "string list \<Rightarrow> jsval \<Rightarrow> jsval" where
  "nested_walk [] parent = parent"
| "nested_walk (k # ks) parent =
     (if parent = JUndefined \<or> parent = JNull then parent
      else (let child = js_get parent k
            in if child = JUndefined \<or> child = JNull then JUndefined
               else nested_walk ks child))"

definition getNestedProperty :: "string \<Rightarrow> jsval \<Rightarrow> jsval" where
  "getNestedProperty key parent = nested_walk (split_dots key) parent"

text \<open>
  Modelled from the spec: \<open>setNestedProperty\<close> of the map point class, which the map
  series calls for a field name with a dot in \<open>pointArrayMap\<close>. It stores the value under
  the nested names, creating the objects on the way.
\<close>

fun set_nested :: "string list \<Rightarrow> jsval \<Rightarrow> obj \<Rightarrow> obj" where
  "set_nested [] v ob = ob"
| "set_nested [k] v ob = obj_set k v ob"
| "set_nested (k # k' # ks) v ob =
     obj_set k (JObj (set_nested (k' # ks) v (case obj_get ob k of JObj ob' \<Rightarrow> ob' | _ \<Rightarrow> []))) ob"

definition setNestedProperty :: "obj \<Rightarrow> jsval \<Rightarrow> string \<Rightarrow> obj" where
  "setNestedProperty ob v key = set_nested (split_dots key) v ob"

subsection \<open>\<open>setOptions\<close>: the join keys\<close>

text \<open>The option \<open>joinBy\<close>: \<^verbatim>\<open>null\<close>, a string or an array of strings.\<close>

datatype joinBy_option = JoinByNull | JoinByString string | JoinByArray "string list"

text \<open>An element of an array of strings, \<^verbatim>\<open>undefined\<close> beyond its end.\<close>

definition nth_opt :: "'a list \<Rightarrow> nat \<Rightarrow> 'a option" where
  "nth_opt xs i = (if i < length xs then Some (xs ! i) else None)"

text \<open>
  \<open>setOptions\<close> leaves \<open>joinBy[0]\<close> and \<open>joinBy[1]\<close> in the series: \<^verbatim>\<open>'_i'\<close> for
  \<^verbatim>\<open>null\<close>, the array of \<open>splat\<close>, and the first key as the second when that is
  missing.
\<close>

definition setOptions_joinBy :: "joinBy_option \<Rightarrow> string option \<times> string option" where
  "setOptions_joinBy joinBy =
     (let arr = (case joinBy of
                   JoinByNull \<Rightarrow> [''_i'']
                 | JoinByString s \<Rightarrow> [s]
                 | JoinByArray a \<Rightarrow> a)
      in (nth_opt arr 0, if str_truthy (nth_opt arr 1) then nth_opt arr 1 else nth_opt arr 0))"

subsection \<open>\<open>setData\<close>\<close>

text \<open>
  What \<open>setData\<close> reads from the series: the join keys, the options \<open>keys\<close> and
  \<open>allAreas\<close>, the \<open>pointArrayMap\<close> of the prototype, and the map data (of the series or
  of the chart) as an array of shape objects.
\<close>

record join_series =
  joinBy0 :: "string option"
  joinBy1 :: "string option"
  options_keys :: "string list option"
  pointArrayMap :: "string list"
  options_allAreas :: bool
  mapData :: "obj list option"

definition arr_get :: "jsval list \<Rightarrow> nat \<Rightarrow> jsval" where
  "arr_get xs i = (if i < length xs then xs ! i else JUndefined)"

text \<open>\<^verbatim>\<open>key.indexOf('.') > 0\<close>.\<close>

definition dot_after_start :: "string \<Rightarrow> bool" where
  "dot_after_start key =
     (case key of [] \<Rightarrow> False | c # cs \<Rightarrow> c \<noteq> CHR ''.'' \<and> CHR ''.'' \<in> set cs)"

text \<open>
  The loop that runs through \<open>pointArrayMap\<close> and the array \<open>val\<close> in parallel, from
  the index \<open>ix\<close> of \<open>val\<close>.
\<close>

fun copy_fields :: "string list \<Rightarrow> jsval list \<Rightarrow> nat \<Rightarrow> obj \<Rightarrow> obj" where
  "copy_fields [] val ix ob = ob"
| "copy_fields (key # keys) val ix ob =
     copy_fields keys val (Suc ix)
       (if key \<noteq> [] \<and> arr_get val ix \<noteq> JUndefined
        then (if dot_after_start key then setNestedProperty ob (arr_get val ix) key
              else obj_set key (arr_get val ix) ob)
        else ob)"

text \<open>
  One round of the first loop: a number becomes \<^verbatim>\<open>{value: val}\<close>, an array becomes an
  object, anything else stays.
\<close>

definition normalize_item :: "join_series \<Rightarrow> jsval \<Rightarrow> jsval" where
  "normalize_item series val =
     (case val of
        JNum n \<Rightarrow> JObj [(''value'', JNum n)]
      | JArr xs \<Rightarrow>
          (let pam = (case options_keys series of Some ks \<Rightarrow> ks | None \<Rightarrow> pointArrayMap series)
           in if options_keys series = None \<and> length xs > length pam \<and>
                 (case arr_get xs 0 of JStr s \<Rightarrow> True | _ \<Rightarrow> False)
              then JObj (copy_fields pam xs 1 [(''hc-key'', arr_get xs 0)])
              else JObj (copy_fields pam xs 0 []))
      | _ \<Rightarrow> val)"

text \<open>
  \<^verbatim>\<open>data[i]._i = i\<close>. The code is strict, so the assignment throws on \<^verbatim>\<open>null\<close> and
  \<^verbatim>\<open>undefined\<close> and on a string or a boolean. The item is never a number or an array
  here, as \<open>normalize_item\<close> has made an object of these.
\<close>

definition set_index :: "jsval \<Rightarrow> nat \<Rightarrow> js_error + jsval" where
  "set_index item i =
     (case item of
        JObj ob \<Rightarrow> Inr (JObj (obj_set ''_i'' (JNum (int i)) ob))
      | JArr xs \<Rightarrow> Inr (JArr xs)
      | _ \<Rightarrow> Inl TypeError)"

fun normalize_loop :: "join_series \<Rightarrow> nat \<Rightarrow> jsval list \<Rightarrow> js_error + jsval list" where
  "normalize_loop series i [] = Inr []"
| "normalize_loop series i (val # vals) =
     (case (if joinBy0 series = Some ''_i''
            then set_index (normalize_item series val) i
            else Inr (normalize_item series val)) of
        Inl e \<Rightarrow> Inl e
      | Inr item \<Rightarrow>
          (case normalize_loop series (Suc i) vals of
             Inl e \<Rightarrow> Inl e
           | Inr items \<Rightarrow> Inr (item # items)))"

text \<open>
  What \<open>getBox\<close> does to the objects of the join. It reads \<^verbatim>\<open>point.path\<close> of every
  item, which throws on \<^verbatim>\<open>null\<close> and \<^verbatim>\<open>undefined\<close>. A truthy path that is a string is
  split into segments by \<open>splitPath\<close>, and an array that starts with \<^verbatim>\<open>'M'\<close> by
  \<open>pathToSegments\<close>; unless \<^verbatim>\<open>_foundBox\<close> is set, the path is then walked with
  \<^verbatim>\<open>forEach\<close>, which a number, a boolean or an object does not have, and
  \<^verbatim>\<open>seg.length\<close> is read of every segment, which throws on \<^verbatim>\<open>null\<close> and \<^verbatim>\<open>undefined\<close>.

  The split path and the box that \<open>getBox\<close> caches in an item with a path (under the
  names of \<open>cached_names\<close>) are not read by the join when its keys have other names.
  They are left out of the objects of the model, which are the objects of the code
  without these properties.
\<close>

definition path_walk_throws :: "jsval \<Rightarrow> bool" where
  "path_walk_throws p =
     (case p of
        JStr s \<Rightarrow> False
      | JArr segs \<Rightarrow>
          (if arr_get segs 0 = JStr ''M'' then False
           else JNull \<in> set segs \<or> JUndefined \<in> set segs)
      | _ \<Rightarrow> True)"

definition getBox_item_throws :: "jsval \<Rightarrow> bool" where
  "getBox_item_throws point =
     (case point of
        JUndefined \<Rightarrow> True
      | JNull \<Rightarrow> True
      | JObj ob \<Rightarrow>
          js_truthy (obj_get ob ''path'') \<and> \<not> js_truthy (obj_get ob ''_foundBox'') \<and>
          path_walk_throws (obj_get ob ''path'')
      | _ \<Rightarrow> False)"

definition getBox_reads :: "jsval list \<Rightarrow> js_error + unit" where
  "getBox_reads items =
     (if list_ex getBox_item_throws items then Inl TypeError else Inr ())"


text \<open>
  The loop over the map data: every shape gets its index, the join key is copied from
  \<open>properties\<close> to the shape, and the shape is stored in \<open>mapMap\<close> under its key.
\<close>

definition index_shape :: "string option \<Rightarrow> nat \<Rightarrow> obj \<Rightarrow> obj" where
  "index_shape jb0 i mapPoint =
     (let mapPoint1 = obj_set ''_i'' (JNum (int i)) mapPoint;
          props = obj_get mapPoint1 ''properties''
      in if str_truthy jb0 \<and> js_truthy props \<and> js_truthy (js_get props (prop_name jb0))
         then obj_set (prop_name jb0) (js_get props (prop_name jb0)) mapPoint1
         else mapPoint1)"

fun index_mapData :: "string option \<Rightarrow> nat \<Rightarrow> obj list \<Rightarrow> obj list" where
  "index_mapData jb0 i [] = []"
| "index_mapData jb0 i (mapPoint # rest) =
     index_shape jb0 i mapPoint # index_mapData jb0 (Suc i) rest"

definition shape_key :: "string option \<Rightarrow> obj \<Rightarrow> jsval" where
  "shape_key jb0 mapPoint = obj_get mapPoint (prop_name jb0)"

text \<open>
  \<open>mapMap\<close> as the map of its own properties. The object of the code also inherits the
  members of \<^verbatim>\<open>Object.prototype\<close>, which a lookup finds under their names when no shape
  has that key, and the key \<^verbatim>\<open>'__proto__'\<close> is no own property; the statements about
  which shapes are used are for value keys that are keys of shapes, and for keys other
  than \<^verbatim>\<open>'__proto__'\<close>.
\<close>

definition build_mapMap :: "string option \<Rightarrow> obj list \<Rightarrow> (string \<rightharpoonup> obj)" where
  "build_mapMap jb0 shapes =
     foldl (\<lambda>mapMap mapPoint. mapMap(js_to_string (shape_key jb0 mapPoint) \<mapsto> mapPoint))
       Map.empty shapes"

text \<open>The shapes that the data items point to, pushed on \<open>dataUsed\<close>.\<close>

definition used_shapes :: "(string \<rightharpoonup> obj) \<Rightarrow> string \<Rightarrow> jsval list \<Rightarrow> jsval list" where
  "used_shapes mapMap joinKey items =
     concat (map (\<lambda>pointOptions.
       (case mapMap (js_to_string (getNestedProperty joinKey pointOptions)) of
          Some mapPoint \<Rightarrow> [JObj mapPoint]
        | None \<Rightarrow> [])) items)"

text \<open>
  The string that replaces \<open>dataUsed\<close>: the key of every element that is truthy, the
  element itself otherwise, joined and enclosed by bars.
\<close>

definition dataUsed_string :: "string option \<Rightarrow> jsval list \<Rightarrow> string" where
  "dataUsed_string jb0 dataUsed =
     ''|'' @ join_strings ''|''
       (map (\<lambda>point. join_item (if js_truthy point then js_get point (prop_name jb0) else point))
          dataUsed) @ ''|''"

text \<open>The test of the last loop: the shape is added as a null point.\<close>

definition not_used :: "string option \<Rightarrow> string \<Rightarrow> obj \<Rightarrow> bool" where
  "not_used jb0 dataUsed mapPoint =
     (\<not> str_truthy jb0 \<or>
      \<not> sublist (''|'' @ js_to_string (shape_key jb0 mapPoint) @ ''|'') dataUsed)"

text \<open>\<^verbatim>\<open>merge(mapPoint, { value: null })\<close>.\<close>

definition null_point :: "obj \<Rightarrow> jsval" where
  "null_point mapPoint = JObj (obj_set ''value'' JNull mapPoint)"

text \<open>
  \<open>setData\<close>, up to its call of the base series' \<open>setData\<close>: the result is the array
  \<open>data\<close> (\<open>data0\<close> is the array that is passed in) and the flag \<open>updatePoints\<close>
  that it hands over. The calls of \<open>getBox\<close> are \<open>getBox_reads\<close>. The transform
  definitions of the chart, which the join does not read, are left out.
\<close>

definition setData ::
  "join_series \<Rightarrow> jsval list option \<Rightarrow> bool option
     \<Rightarrow> js_error + (jsval list option \<times> bool option)" where
  "setData series data0 updatePoints =
     (case (case data0 of
              None \<Rightarrow> Inr None
            | Some d \<Rightarrow> (case normalize_loop series 0 d of
                          Inl e \<Rightarrow> Inl e | Inr d' \<Rightarrow> Inr (Some d'))) of
        Inl e \<Rightarrow> Inl e
      | Inr data1 \<Rightarrow>
          (case getBox_reads (case data1 of None \<Rightarrow> [] | Some d \<Rightarrow> d) of
             Inl e \<Rightarrow> Inl e
           | Inr u \<Rightarrow>
               (case mapData series of
                  None \<Rightarrow> Inr (data1, updatePoints)
                | Some shapes \<Rightarrow>
                    (let shapes' = index_mapData (joinBy0 series) 0 shapes;
                         mapMap = build_mapMap (joinBy0 series) shapes';
                         dataUsed =
                           (case data1 of
                              None \<Rightarrow> []
                            | Some d \<Rightarrow>
                                if str_truthy (joinBy1 series)
                                then used_shapes mapMap (prop_name (joinBy1 series)) d
                                else [])
                     in if options_allAreas series then
                          (case getBox_reads (map JObj shapes') of
                             Inl e \<Rightarrow> Inl e
                           | Inr u' \<Rightarrow>
                               (let d = (case data1 of None \<Rightarrow> [] | Some d \<Rightarrow> d);
                                    dataUsed' = dataUsed @
                                      (if str_truthy (joinBy1 series)
                                       then map (getNestedProperty (prop_name (joinBy1 series))) d
                                       else []);
                                    used = dataUsed_string (joinBy0 series) dataUsed';
                                    added = filter (not_used (joinBy0 series) used) shapes'
                                in Inr (Some (d @ map null_point added),
                                        if added = [] then updatePoints else Some False)))
                        else (case getBox_reads dataUsed of
                                Inl e \<Rightarrow> Inl e
                              | Inr u' \<Rightarrow> Inr (data1, updatePoints))))))"





section \<open>Properties of \<open>translatePath\<close>\<close>

lemma translatePath_foldl:
  "foldl (translatePath_step xa ya) ret p =
     ret @ map (\<lambda>s. hd (translatePath_step xa ya [] s)) p"
proof (induction p arbitrary: ret)
  case Nil
  show ?case by simp
next
  case (Cons s p)
  have "translatePath_step xa ya ret s = ret @ translatePath_step xa ya [] s"
    by (cases s) simp_all
  moreover have "translatePath_step xa ya [] s = [hd (translatePath_step xa ya [] s)]"
    by (cases s) simp_all
  ultimately show ?case using Cons.IH by simp
qed

lemma translatePath_step_hd:
  "hd (translatePath_step xa ya [] s) =
     (case s of
        MoveTo x y \<Rightarrow> MoveTo (to_px xa x) (to_px ya y)
      | LineTo x y \<Rightarrow> LineTo (to_px xa x) (to_px ya y)
      | CurveTo a b c d x y \<Rightarrow>
          CurveTo (to_px xa a) (to_px ya b) (to_px xa c) (to_px ya d)
            (to_px xa x) (to_px ya y)
      | QuadTo a b x y \<Rightarrow>
          QuadTo (to_px xa a) (to_px ya b) (to_px xa x) (to_px ya y)
      | ClosePath \<Rightarrow> ClosePath)"
  by (cases s) (simp_all add: to_px_def)

text \<open>
  Claim C4. \<open>translatePath\<close> returns one segment for each input segment, in order and
  with the same tag, and every coordinate \<open>c\<close> of it is
  \<open>(c - domainMin) * transA + minPixelPadding\<close>, the X coordinates on the x axis and the
  Y coordinates on the y axis (an undefined \<open>min\<close> counts as 0). Move and Line keep
  their one point, CubicBezier its three, QuadraticBezier its two and Close none. With
  \<open>min = 0\<close>, \<open>transA = 10\<close> and no padding on both axes, the path
  \<open>[Move(0,0), Line(10,0), Line(10,10), Close]\<close> becomes
  \<open>[Move(0,0), Line(100,0), Line(100,100), Close]\<close>.
\<close>

theorem translatePath_maps_each_segment:
  "length (translatePath xa ya (Some p)) = length p \<and>
   (\<forall>i < length p.
      kind_of (translatePath xa ya (Some p) ! i) = kind_of (p ! i) \<and>
      seg_points (translatePath xa ya (Some p) ! i) =
        map (\<lambda>(x, y). ((x - or0 (axis_min xa)) * transA xa + minPixelPadding xa,
                        (y - or0 (axis_min ya)) * transA ya + minPixelPadding ya))
          (seg_points (p ! i))) \<and>
   (axis_min xa = Some 0 \<and> transA xa = 10 \<and> minPixelPadding xa = 0 \<and>
    axis_min ya = Some 0 \<and> transA ya = 10 \<and> minPixelPadding ya = 0 \<longrightarrow>
    translatePath xa ya (Some [MoveTo 0 0, LineTo 10 0, LineTo 10 10, ClosePath]) =
      [MoveTo 0 0, LineTo 100 0, LineTo 100 100, ClosePath])"
proof -
  have eq: "translatePath xa ya (Some p) =
      map (\<lambda>s. hd (translatePath_step xa ya [] s)) p"
    by (simp add: translatePath_def translatePath_foldl)
  have len: "length (translatePath xa ya (Some p)) = length p"
    by (simp add: eq)
  have each: "kind_of (translatePath xa ya (Some p) ! i) = kind_of (p ! i) \<and>
      seg_points (translatePath xa ya (Some p) ! i) =
        map (\<lambda>(x, y). ((x - or0 (axis_min xa)) * transA xa + minPixelPadding xa,
                        (y - or0 (axis_min ya)) * transA ya + minPixelPadding ya))
          (seg_points (p ! i))" if "i < length p" for i
    using that by (cases "p ! i") (simp_all add: eq translatePath_step_hd to_px_def)
  have ex: "translatePath xa ya (Some [MoveTo 0 0, LineTo 10 0, LineTo 10 10, ClosePath]) =
      [MoveTo 0 0, LineTo 100 0, LineTo 100 100, ClosePath]"
    if "axis_min xa = Some 0 \<and> transA xa = 10 \<and> minPixelPadding xa = 0 \<and>
        axis_min ya = Some 0 \<and> transA ya = 10 \<and> minPixelPadding ya = 0"
    using that by (simp add: translatePath_def or0_def)
  from len each ex show ?thesis by blast
qed

theorem translatePath_maps_each_segment_witness:
  "translatePath
     \<lparr>axis_min = Some 0, transA = 10, minPixelPadding = 0, axis_len = 100, reversed = False,
      toPixels = (\<lambda>v. v * 10), minRange = None, options_minRange = None\<rparr>
     \<lparr>axis_min = Some 0, transA = 10, minPixelPadding = 0, axis_len = 100, reversed = False,
      toPixels = (\<lambda>v. v * 10), minRange = None, options_minRange = None\<rparr>
     (Some [MoveTo 0 0, LineTo 10 0, LineTo 10 10, ClosePath]) =
   [MoveTo 0 0, LineTo 100 0, LineTo 100 100, ClosePath] \<and>
   (1::nat) < length [MoveTo 0 0, LineTo 10 0, LineTo 10 10, ClosePath] \<and>
   seg_points (translatePath
     \<lparr>axis_min = Some 0, transA = 10, minPixelPadding = 0, axis_len = 100, reversed = False,
      toPixels = (\<lambda>v. v * 10), minRange = None, options_minRange = None\<rparr>
     \<lparr>axis_min = Some 0, transA = 10, minPixelPadding = 0, axis_len = 100, reversed = False,
      toPixels = (\<lambda>v. v * 10), minRange = None, options_minRange = None\<rparr>
     (Some [MoveTo 0 0, LineTo 10 0, LineTo 10 10, ClosePath]) ! 1) = [(100, 0)]"
  using translatePath_maps_each_segment [of
     "\<lparr>axis_min = Some 0, transA = 10, minPixelPadding = 0, axis_len = 100, reversed = False,
      toPixels = (\<lambda>v. v * 10), minRange = None, options_minRange = None\<rparr>"
     "\<lparr>axis_min = Some 0, transA = 10, minPixelPadding = 0, axis_len = 100, reversed = False,
      toPixels = (\<lambda>v. v * 10), minRange = None, options_minRange = None\<rparr>"
     "[MoveTo 0 0, LineTo 10 0, LineTo 10 10, ClosePath]"]
  by (simp add: or0_def)

section \<open>Properties of the comparison\<close>

text \<open>
  Claim C5. With a compare mode set, a defined baseline \<open>compareValue\<close> and a defined
  input value, the installed \<open>modifyValue\<close> returns \<open>value - baseline\<close> in the mode
  \<^verbatim>\<open>'value'\<close> and \<open>100 * (value / baseline) - (compareBase = 100 ? 0 : 100)\<close> in the
  mode \<^verbatim>\<open>'percent'\<close> (with a zero baseline that quotient is not finite: \<^verbatim>\<open>NaN\<close> for
  the value 0, an infinity otherwise). In percent mode the baseline 50 and the value 75
  give 50.
\<close>

theorem modifyValue_compare:
  "initCompare (Some ''value'') = Some (modifyValue ''value'') \<and>
   initCompare (Some ''percent'') = Some (modifyValue ''percent'') \<and>
   (compareValue s = Some cv \<longrightarrow>
      fst (modifyValue ''value'' s (Some v) point) = Fin (v - cv) \<and>
      (cv \<noteq> 0 \<longrightarrow> fst (modifyValue ''percent'' s (Some v) point) =
         Fin (100 * (v / cv) - (if options_compareBase s = Some 100 then 0 else 100))) \<and>
      (cv = 0 \<longrightarrow> fst (modifyValue ''percent'' s (Some v) point) =
         (if v = 0 then NaN else Infinite))) \<and>
   (compareValue s = Some 50 \<and> options_compareBase s \<noteq> Some 100 \<longrightarrow>
      fst (modifyValue ''percent'' s (Some 75) point) = Fin 50)"
  by (simp add: initCompare_def modifyValue_def js_div_def Let_def)

theorem modifyValue_compare_witness:
  "fst (modifyValue ''percent'' \<lparr>compareValue = Some 50, options_compareBase = None\<rparr>
     (Some 75) None) = Fin 50 \<and>
   fst (modifyValue ''value'' \<lparr>compareValue = Some 50, options_compareBase = None\<rparr>
     (Some 75) None) = Fin 25 \<and>
   fst (modifyValue ''percent'' \<lparr>compareValue = Some 50, options_compareBase = Some 100\<rparr>
     (Some 75) None) = Fin 150"
  using modifyValue_compare [of "\<lparr>compareValue = Some 50, options_compareBase = None\<rparr>" 50 75 None]
    modifyValue_compare [of "\<lparr>compareValue = Some 50, options_compareBase = Some 100\<rparr>" 50 75 None]
  by simp

text \<open>
  Claim C10. In the modes \<^verbatim>\<open>'value'\<close> and \<^verbatim>\<open>'percent'\<close> the installed \<open>modifyValue\<close>
  returns 0 whenever the input value or the baseline \<open>compareValue\<close> is undefined, and
  leaves the point as it is; so, as long as there is no baseline, both extremes that the
  \<^verbatim>\<open>afterGetExtremes\<close> handler computes from the data extremes are 0.
\<close>

theorem modifyValue_undefined_is_zero:
  "(compare = ''value'' \<or> compare = ''percent'') \<and> (val = None \<or> compareValue s = None) \<longrightarrow>
     initCompare (Some compare) = Some (modifyValue compare) \<and>
     modifyValue compare s val point = (Fin 0, point) \<and>
     (compareValue s = None \<longrightarrow>
        afterGetExtremes_extremes compare s dataMin dataMax = [Fin 0, Fin 0])"
  by (auto simp add: initCompare_def modifyValue_def afterGetExtremes_extremes_def
      split: option.splits)

theorem modifyValue_undefined_is_zero_witness:
  "modifyValue ''percent'' \<lparr>compareValue = None, options_compareBase = None\<rparr> (Some 75) None
     = (Fin 0, None) \<and>
   modifyValue ''value'' \<lparr>compareValue = Some 50, options_compareBase = None\<rparr> None None
     = (Fin 0, None) \<and>
   afterGetExtremes_extremes ''percent'' \<lparr>compareValue = None, options_compareBase = None\<rparr>
     (Some 10) (Some 90) = [Fin 0, Fin 0]"
  using modifyValue_undefined_is_zero [of "''percent''" "Some 75"
      "\<lparr>compareValue = None, options_compareBase = None\<rparr>" None "Some 10" "Some 90"]
    modifyValue_undefined_is_zero [of "''value''" None
      "\<lparr>compareValue = Some 50, options_compareBase = None\<rparr>" None "Some 10" "Some 90"]
  by simp

section \<open>Properties of the fast transform\<close>

text \<open>
  Claim C3, amended. In the fast transform, when both computed scale factors lie strictly
  between 0.99 and 1.01, both are set to exactly 1 and \<open>translateX\<close> and
  \<open>translateY\<close> are rounded to the nearest integer (\<^verbatim>\<open>Math.round\<close>); in every other
  case, the bounds 0.99 and 1.01 themselves included, scale and translation are applied
  as computed.
\<close>

theorem fastTransform_snaps_inside_open_interval:
  "(transAX bt \<noteq> 0 \<and> transAY bt \<noteq> 0 \<and>
    0.99 < transA xa / transAX bt \<and> transA xa / transAX bt < 1.01 \<and>
    0.99 < transA ya / transAY bt \<and> transA ya / transAY bt < 1.01 \<longrightarrow>
      fastTransform xa ya bt =
        \<lparr>translateX = of_int \<lfloor>toPixels xa (originX bt) + 1 / 2\<rfloor>,
         translateY = of_int \<lfloor>toPixels ya (originY bt) + 1 / 2\<rfloor>,
         scaleX = Fin 1, scaleY = Fin 1\<rparr> \<and>
      \<bar>translateX (fastTransform xa ya bt) - toPixels xa (originX bt)\<bar> \<le> 1 / 2 \<and>
      \<bar>translateY (fastTransform xa ya bt) - toPixels ya (originY bt)\<bar> \<le> 1 / 2) \<and>
   (\<not> (transAX bt \<noteq> 0 \<and> transAY bt \<noteq> 0 \<and>
       0.99 < transA xa / transAX bt \<and> transA xa / transAX bt < 1.01 \<and>
       0.99 < transA ya / transAY bt \<and> transA ya / transAY bt < 1.01) \<longrightarrow>
      fastTransform xa ya bt =
        \<lparr>translateX = toPixels xa (originX bt), translateY = toPixels ya (originY bt),
         scaleX = js_div (transA xa) (transAX bt), scaleY = js_div (transA ya) (transAY bt)\<rparr>)"
proof (cases "transAX bt \<noteq> 0 \<and> transAY bt \<noteq> 0 \<and>
    0.99 < transA xa / transAX bt \<and> transA xa / transAX bt < 1.01 \<and>
    0.99 < transA ya / transAY bt \<and> transA ya / transAY bt < 1.01")
  case True
  have eq: "fastTransform xa ya bt =
        \<lparr>translateX = of_int \<lfloor>toPixels xa (originX bt) + 1 / 2\<rfloor>,
         translateY = of_int \<lfloor>toPixels ya (originY bt) + 1 / 2\<rfloor>,
         scaleX = Fin 1, scaleY = Fin 1\<rparr>"
    using True by (simp add: fastTransform_def Let_def js_div_def Math_round_def)
  have r: "\<bar>of_int \<lfloor>t + 1 / 2\<rfloor> - t\<bar> \<le> 1 / 2" for t :: real
    by linarith
  have "\<bar>translateX (fastTransform xa ya bt) - toPixels xa (originX bt)\<bar> \<le> 1 / 2"
    unfolding eq using r [of "toPixels xa (originX bt)"] by simp
  moreover have "\<bar>translateY (fastTransform xa ya bt) - toPixels ya (originY bt)\<bar> \<le> 1 / 2"
    unfolding eq using r [of "toPixels ya (originY bt)"] by simp
  ultimately show ?thesis using True eq by blast
next
  case False
  have "fastTransform xa ya bt =
        \<lparr>translateX = toPixels xa (originX bt), translateY = toPixels ya (originY bt),
         scaleX = js_div (transA xa) (transAX bt), scaleY = js_div (transA ya) (transAY bt)\<rparr>"
    using False by (auto simp add: fastTransform_def Let_def js_div_def)
  then show ?thesis using False by blast
qed

theorem fastTransform_snaps_inside_open_interval_witness:
  "fastTransform
     \<lparr>axis_min = Some 0, transA = 2, minPixelPadding = 0, axis_len = 100, reversed = False,
      toPixels = (\<lambda>v. v * 2 + 1 / 4), minRange = None, options_minRange = None\<rparr>
     \<lparr>axis_min = Some 0, transA = 2, minPixelPadding = 0, axis_len = 100, reversed = False,
      toPixels = (\<lambda>v. v * 2 + 3 / 4), minRange = None, options_minRange = None\<rparr>
     \<lparr>originX = 1, originY = 1, transAX = 2, transAY = 2\<rparr> =
   \<lparr>translateX = 2, translateY = 3, scaleX = Fin 1, scaleY = Fin 1\<rparr> \<and>
   fastTransform
     \<lparr>axis_min = Some 0, transA = 4, minPixelPadding = 0, axis_len = 100, reversed = False,
      toPixels = (\<lambda>v. v * 4 + 1 / 4), minRange = None, options_minRange = None\<rparr>
     \<lparr>axis_min = Some 0, transA = 2, minPixelPadding = 0, axis_len = 100, reversed = False,
      toPixels = (\<lambda>v. v * 2 + 3 / 4), minRange = None, options_minRange = None\<rparr>
     \<lparr>originX = 1, originY = 1, transAX = 2, transAY = 2\<rparr> =
   \<lparr>translateX = 17 / 4, translateY = 11 / 4, scaleX = Fin 2, scaleY = Fin 1\<rparr>"
  using fastTransform_snaps_inside_open_interval [of
      "\<lparr>originX = 1, originY = 1, transAX = 2, transAY = 2\<rparr>"
      "\<lparr>axis_min = Some 0, transA = 2, minPixelPadding = 0, axis_len = 100, reversed = False,
        toPixels = (\<lambda>v. v * 2 + 1 / 4), minRange = None, options_minRange = None\<rparr>"
      "\<lparr>axis_min = Some 0, transA = 2, minPixelPadding = 0, axis_len = 100, reversed = False,
        toPixels = (\<lambda>v. v * 2 + 3 / 4), minRange = None, options_minRange = None\<rparr>"]
    fastTransform_snaps_inside_open_interval [of
      "\<lparr>originX = 1, originY = 1, transAX = 2, transAY = 2\<rparr>"
      "\<lparr>axis_min = Some 0, transA = 4, minPixelPadding = 0, axis_len = 100, reversed = False,
        toPixels = (\<lambda>v. v * 4 + 1 / 4), minRange = None, options_minRange = None\<rparr>"
      "\<lparr>axis_min = Some 0, transA = 2, minPixelPadding = 0, axis_len = 100, reversed = False,
        toPixels = (\<lambda>v. v * 2 + 3 / 4), minRange = None, options_minRange = None\<rparr>"]
  by (simp add: js_div_def)

theorem fastTransform_closed_interval_counterexample:
  "js_div (transA \<lparr>axis_min = Some 0, transA = 99 / 100, minPixelPadding = 0, axis_len = 100,
      reversed = False, toPixels = (\<lambda>v. v * 99 / 100), minRange = None,
      options_minRange = None\<rparr>)
     (transAX \<lparr>originX = 0, originY = 0, transAX = 1, transAY = 1\<rparr>) = Fin (99 / 100) \<and>
   js_div (transA \<lparr>axis_min = Some 0, transA = 1, minPixelPadding = 0, axis_len = 100,
      reversed = False, toPixels = (\<lambda>v. v), minRange = None, options_minRange = None\<rparr>)
     (transAY \<lparr>originX = 0, originY = 0, transAX = 1, transAY = 1\<rparr>) = Fin 1 \<and>
   (0.99::real) \<le> 99 / 100 \<and> (99 / 100 :: real) \<le> 1.01 \<and>
   (0.99::real) \<le> 1 \<and> (1::real) \<le> 1.01 \<and>
   scaleX (fastTransform
     \<lparr>axis_min = Some 0, transA = 99 / 100, minPixelPadding = 0, axis_len = 100,
      reversed = False, toPixels = (\<lambda>v. v * 99 / 100), minRange = None,
      options_minRange = None\<rparr>
     \<lparr>axis_min = Some 0, transA = 1, minPixelPadding = 0, axis_len = 100,
      reversed = False, toPixels = (\<lambda>v. v), minRange = None, options_minRange = None\<rparr>
     \<lparr>originX = 0, originY = 0, transAX = 1, transAY = 1\<rparr>) \<noteq> Fin 1"
  by (simp add: fastTransform_def js_div_def Let_def)

section \<open>Properties of the column pyramid\<close>

lemma pyramid_upright_guard:
  "\<not> chart_inverted series \<Longrightarrow> stackHeight (pyramid_translate_point series point) = 0 \<Longrightarrow>
     topXwidth (pyramid_translate_point series point) = Fin 0 \<and>
     bottomXwidth (pyramid_translate_point series point) = Fin 0"
  by (simp add: pyramid_translate_point_def Let_def)

text \<open>
  Claim C7 holds in an upright chart only (lemma \<open>pyramid_upright_guard\<close>); the block
  for an inverted chart divides by its own \<open>stackHeight\<close> with no guard. In the
  inverted chart below (threshold 0, plot position \<open>2 * v\<close> for the value \<open>v\<close>, axis
  width 100) the point with \<open>y = 1/4\<close> has the stack height 0, and its \<open>topXwidth\<close>
  and \<open>bottomXwidth\<close> are both \<^verbatim>\<open>NaN\<close>, not 0.
\<close>

theorem pyramid_inverted_zero_stackHeight_is_NaN:
  "stackHeight (pyramid_translate_point
     \<lparr>chart_inverted = True, chart_plotHeight = 200, yAxis_len = 100, yAxis_width = 100,
      yAxis_toPixels = (\<lambda>v. 2 * v), yAxis_getThreshold = (\<lambda>t. 100 - 2 * t),
      options_threshold = 0, options_stacking = None, options_pointPadding = None,
      metrics_width = 20, metrics_offset = 0, borderWidth = 1\<rparr>
     \<lparr>point_yBottom = None, point_plotX = 50, point_plotY = 199 / 2,
      point_total = None, point_y = Some (1 / 4)\<rparr>) = 0 \<and>
   topXwidth (pyramid_translate_point
     \<lparr>chart_inverted = True, chart_plotHeight = 200, yAxis_len = 100, yAxis_width = 100,
      yAxis_toPixels = (\<lambda>v. 2 * v), yAxis_getThreshold = (\<lambda>t. 100 - 2 * t),
      options_threshold = 0, options_stacking = None, options_pointPadding = None,
      metrics_width = 20, metrics_offset = 0, borderWidth = 1\<rparr>
     \<lparr>point_yBottom = None, point_plotX = 50, point_plotY = 199 / 2,
      point_total = None, point_y = Some (1 / 4)\<rparr>) = NaN \<and>
   bottomXwidth (pyramid_translate_point
     \<lparr>chart_inverted = True, chart_plotHeight = 200, yAxis_len = 100, yAxis_width = 100,
      yAxis_toPixels = (\<lambda>v. 2 * v), yAxis_getThreshold = (\<lambda>t. 100 - 2 * t),
      options_threshold = 0, options_stacking = None, options_pointPadding = None,
      metrics_width = 20, metrics_offset = 0, borderWidth = 1\<rparr>
     \<lparr>point_yBottom = None, point_plotX = 50, point_plotY = 199 / 2,
      point_total = None, point_y = Some (1 / 4)\<rparr>) = NaN"
  by (simp add: pyramid_translate_point_def Let_def translatedThreshold_def seriesBarW_def
      stackTotal_def pick2_def clamp_def or0_def js_div_def)

section \<open>Properties of \<open>translate\<close>\<close>

lemma translate_point_again:
  assumes "translate_point series full point = Inr point'"
    and "xAxis series' = xAxis series" and "yAxis series' = yAxis series"
  shows "translate_point series' full point' = Inr point'"
  using assms
  by (auto simp add: translate_point_def split: option.splits if_splits)

lemma translate_loop_again:
  assumes "translate_loop series full points = Inr points'"
    and "xAxis series' = xAxis series" and "yAxis series' = yAxis series"
  shows "translate_loop series' full points' = Inr points'"
  using assms
proof (induction points arbitrary: points')
  case Nil
  then show ?case by simp
next
  case (Cons point points)
  from Cons.prems(1) obtain p' ps' where
    p: "translate_point series full point = Inr p'" and
    ps: "translate_loop series full points = Inr ps'" and
    eq: "points' = p' # ps'"
    by (auto split: sum.splits)
  from translate_point_again [OF p Cons.prems(2,3)] Cons.IH [OF ps Cons.prems(2,3)] eq
  show ?case by simp
qed

lemma translate_loop_total:
  assumes "xAxis series = Some xa" and "yAxis series = Some ya"
  shows "\<exists>points'. translate_loop series full points = Inr points'"
proof (induction points)
  case Nil
  show ?case by simp
next
  case (Cons point points)
  have "\<exists>p'. translate_point series full point = Inr p'"
    using assms by (simp add: translate_point_def split: option.splits)
  with Cons show ?case by auto
qed

text \<open>
  Claim C9. \<open>translate\<close> succeeds when both axes are there, and running it again on the
  series it has left, with the same points and the same axis state, changes nothing:
  every point gets the same \<open>plotX\<close>, \<open>plotY\<close> and \<open>shapeArgs.d\<close> both times.
\<close>

theorem translate_twice_same_geometry:
  "(xAxis series \<noteq> None \<and> yAxis series \<noteq> None \<longrightarrow> (\<exists>series'. translate series = Inr series')) \<and>
   (translate series = Inr series' \<longrightarrow>
      translate series' = Inr series' \<and>
      (\<forall>series''. translate series' = Inr series'' \<longrightarrow>
         map pixel_geometry (data series'') = map pixel_geometry (data series')))"
proof -
  have total: "\<exists>series'. translate series = Inr series'"
    if "xAxis series \<noteq> None \<and> yAxis series \<noteq> None"
  proof -
    from that obtain xa ya where "xAxis series = Some xa" "yAxis series = Some ya" by auto
    from translate_loop_total [OF this, of "doFullTranslate series" "data series"]
    show ?thesis by (auto simp add: translate_def)
  qed
  have again: "translate series' = Inr series'" if t: "translate series = Inr series'"
  proof -
    from t obtain points' where
      l: "translate_loop series (doFullTranslate series) (data series) = Inr points'" and
      s': "series' = series\<lparr>data := points'\<rparr>"
      by (auto simp add: translate_def split: sum.splits)
    have "doFullTranslate series' = doFullTranslate series"
      by (simp add: s' doFullTranslate_def)
    moreover have "translate_loop series' (doFullTranslate series) points' = Inr points'"
      by (rule translate_loop_again [OF l]) (simp_all add: s')
    ultimately show ?thesis by (simp add: translate_def s')
  qed
  from total again show ?thesis by auto
qed

theorem translate_twice_same_geometry_witness:
  "translate
     \<lparr>xAxis = Some \<lparr>axis_min = Some 0, transA = 10, minPixelPadding = 0, axis_len = 100,
        reversed = False, toPixels = (\<lambda>v. v * 10), minRange = None, options_minRange = None\<rparr>,
      yAxis = Some \<lparr>axis_min = Some 0, transA = 10, minPixelPadding = 0, axis_len = 100,
        reversed = False, toPixels = (\<lambda>v. v * 10), minRange = None, options_minRange = None\<rparr>,
      series_minX = None, series_maxX = None, series_minY = None, series_maxY = None,
      data = [\<lparr>path = Some [MoveTo 0 0, LineTo 10 0, LineTo 10 10, ClosePath],
               foundBox = Some \<lparr>c_minX = 0, c_maxX = 10, c_minY = 0, c_maxY = 10,
                                c_midX = 5, c_midY = 5\<rparr>,
               middleX = None, middleY = None, hc_middle_x = None, hc_middle_y = None,
               labelrank = Some 100, plotX = None, plotY = None, shapeType = None,
               shapeArgs_d = None\<rparr>],
      isDirtyData = True, chart_isResizing = False, renderer_isVML = False,
      series_baseTrans = None\<rparr> =
   Inr
     \<lparr>xAxis = Some \<lparr>axis_min = Some 0, transA = 10, minPixelPadding = 0, axis_len = 100,
        reversed = False, toPixels = (\<lambda>v. v * 10), minRange = None, options_minRange = None\<rparr>,
      yAxis = Some \<lparr>axis_min = Some 0, transA = 10, minPixelPadding = 0, axis_len = 100,
        reversed = False, toPixels = (\<lambda>v. v * 10), minRange = None, options_minRange = None\<rparr>,
      series_minX = None, series_maxX = None, series_minY = None, series_maxY = None,
      data = [\<lparr>path = Some [MoveTo 0 0, LineTo 10 0, LineTo 10 10, ClosePath],
               foundBox = Some \<lparr>c_minX = 0, c_maxX = 10, c_minY = 0, c_maxY = 10,
                                c_midX = 5, c_midY = 5\<rparr>,
               middleX = None, middleY = None, hc_middle_x = None, hc_middle_y = None,
               labelrank = Some 100, plotX = Some 50, plotY = Some 50, shapeType = Some ''path'',
               shapeArgs_d = Some [MoveTo 0 0, LineTo 100 0, LineTo 100 100, ClosePath]\<rparr>],
      isDirtyData = True, chart_isResizing = False, renderer_isVML = False,
      series_baseTrans = None\<rparr> \<and>
   translate
     \<lparr>xAxis = Some \<lparr>axis_min = Some 0, transA = 10, minPixelPadding = 0, axis_len = 100,
        reversed = False, toPixels = (\<lambda>v. v * 10), minRange = None, options_minRange = None\<rparr>,
      yAxis = Some \<lparr>axis_min = Some 0, transA = 10, minPixelPadding = 0, axis_len = 100,
        reversed = False, toPixels = (\<lambda>v. v * 10), minRange = None, options_minRange = None\<rparr>,
      series_minX = None, series_maxX = None, series_minY = None, series_maxY = None,
      data = [\<lparr>path = Some [MoveTo 0 0, LineTo 10 0, LineTo 10 10, ClosePath],
               foundBox = Some \<lparr>c_minX = 0, c_maxX = 10, c_minY = 0, c_maxY = 10,
                                c_midX = 5, c_midY = 5\<rparr>,
               middleX = None, middleY = None, hc_middle_x = None, hc_middle_y = None,
               labelrank = Some 100, plotX = Some 50, plotY = Some 50, shapeType = Some ''path'',
               shapeArgs_d = Some [MoveTo 0 0, LineTo 100 0, LineTo 100 100, ClosePath]\<rparr>],
      isDirtyData = True, chart_isResizing = False, renderer_isVML = False,
      series_baseTrans = None\<rparr> =
   Inr
     \<lparr>xAxis = Some \<lparr>axis_min = Some 0, transA = 10, minPixelPadding = 0, axis_len = 100,
        reversed = False, toPixels = (\<lambda>v. v * 10), minRange = None, options_minRange = None\<rparr>,
      yAxis = Some \<lparr>axis_min = Some 0, transA = 10, minPixelPadding = 0, axis_len = 100,
        reversed = False, toPixels = (\<lambda>v. v * 10), minRange = None, options_minRange = None\<rparr>,
      series_minX = None, series_maxX = None, series_minY = None, series_maxY = None,
      data = [\<lparr>path = Some [MoveTo 0 0, LineTo 10 0, LineTo 10 10, ClosePath],
               foundBox = Some \<lparr>c_minX = 0, c_maxX = 10, c_minY = 0, c_maxY = 10,
                                c_midX = 5, c_midY = 5\<rparr>,
               middleX = None, middleY = None, hc_middle_x = None, hc_middle_y = None,
               labelrank = Some 100, plotX = Some 50, plotY = Some 50, shapeType = Some ''path'',
               shapeArgs_d = Some [MoveTo 0 0, LineTo 100 0, LineTo 100 100, ClosePath]\<rparr>],
      isDirtyData = True, chart_isResizing = False, renderer_isVML = False,
      series_baseTrans = None\<rparr>"
proof -
  let ?s = "\<lparr>xAxis = Some \<lparr>axis_min = Some 0, transA = 10, minPixelPadding = 0, axis_len = 100,
        reversed = False, toPixels = (\<lambda>v. v * 10), minRange = None, options_minRange = None\<rparr>,
      yAxis = Some \<lparr>axis_min = Some 0, transA = 10, minPixelPadding = 0, axis_len = 100,
        reversed = False, toPixels = (\<lambda>v. v * 10), minRange = None, options_minRange = None\<rparr>,
      series_minX = None, series_maxX = None, series_minY = None, series_maxY = None,
      data = [\<lparr>path = Some [MoveTo 0 0, LineTo 10 0, LineTo 10 10, ClosePath],
               foundBox = Some \<lparr>c_minX = 0, c_maxX = 10, c_minY = 0, c_maxY = 10,
                                c_midX = 5, c_midY = 5\<rparr>,
               middleX = None, middleY = None, hc_middle_x = None, hc_middle_y = None,
               labelrank = Some 100, plotX = None, plotY = None, shapeType = None,
               shapeArgs_d = None\<rparr>],
      isDirtyData = True, chart_isResizing = False, renderer_isVML = False,
      series_baseTrans = None\<rparr>"
  let ?s' = "\<lparr>xAxis = Some \<lparr>axis_min = Some 0, transA = 10, minPixelPadding = 0, axis_len = 100,
        reversed = False, toPixels = (\<lambda>v. v * 10), minRange = None, options_minRange = None\<rparr>,
      yAxis = Some \<lparr>axis_min = Some 0, transA = 10, minPixelPadding = 0, axis_len = 100,
        reversed = False, toPixels = (\<lambda>v. v * 10), minRange = None, options_minRange = None\<rparr>,
      series_minX = None, series_maxX = None, series_minY = None, series_maxY = None,
      data = [\<lparr>path = Some [MoveTo 0 0, LineTo 10 0, LineTo 10 10, ClosePath],
               foundBox = Some \<lparr>c_minX = 0, c_maxX = 10, c_minY = 0, c_maxY = 10,
                                c_midX = 5, c_midY = 5\<rparr>,
               middleX = None, middleY = None, hc_middle_x = None, hc_middle_y = None,
               labelrank = Some 100, plotX = Some 50, plotY = Some 50, shapeType = Some ''path'',
               shapeArgs_d = Some [MoveTo 0 0, LineTo 100 0, LineTo 100 100, ClosePath]\<rparr>],
      isDirtyData = True, chart_isResizing = False, renderer_isVML = False,
      series_baseTrans = None\<rparr>"
  have first: "translate ?s = Inr ?s'"
    by (simp add: translate_def doFullTranslate_def translate_point_def translatePath_def or0_def)
  from translate_twice_same_geometry [of ?s ?s'] first
  show ?thesis by blast
qed

section \<open>Properties of \<open>getBox\<close>\<close>

lemma MAX_VALUE_big: "1000000 < MAX_VALUE"
proof -
  have "(1000000::real) < 2 ^ 20" by simp
  also have "\<dots> \<le> 2 ^ 971" by (rule power_increasing) simp_all
  also have "\<dots> \<le> (2 ^ 53 - 1) * 2 ^ 971" by simp
  finally show ?thesis by (simp add: MAX_VALUE_def)
qed

lemma Min_cons_min: "Min (set (min a x # xs)) = Min (set (a # x # xs))" for a :: real
  by (cases "xs = []") (simp_all add: min.assoc)

lemma Max_cons_max: "Max (set (max a x # xs)) = Max (set (a # x # xs))" for a :: real
  by (cases "xs = []") (simp_all add: max.assoc)

lemma foldl_box_step:
  "foldl box_step (a, b, c, d) p =
     (Min (set (a # map fst (end_points p))), Max (set (b # map fst (end_points p))),
      Min (set (c # map snd (end_points p))), Max (set (d # map snd (end_points p))))"
proof (induction p arbitrary: a b c d)
  case Nil
  show ?case by (simp add: end_points_def List.map_filter_simps)
next
  case (Cons s p)
  show ?case
  proof (cases "seg_last_pair s")
    case None
    then show ?thesis using Cons.IH [of a b c d]
      by (simp add: end_points_def List.map_filter_simps)
  next
    case (Some xy)
    obtain x y where xy: "xy = (x, y)" by (cases xy)
    have ep: "end_points (s # p) = (x, y) # end_points p"
      using Some xy by (simp add: end_points_def List.map_filter_simps)
    have "foldl box_step (a, b, c, d) (s # p) =
        foldl box_step (min a x, max b x, min c y, max d y) p"
      using Some xy by simp
    also have "\<dots> = (Min (set (min a x # map fst (end_points p))),
        Max (set (max b x # map fst (end_points p))),
        Min (set (min c y # map snd (end_points p))),
        Max (set (max d y # map snd (end_points p))))"
      by (rule Cons.IH)
    finally show ?thesis
      unfolding ep by (simp only: Min_cons_min Max_cons_max list.map fst_conv snd_conv)
  qed
qed

lemma path_extent_eq:
  "path_extent p =
     (Min (set (MAX_VALUE # map fst (end_points p))), Max (set (- MAX_VALUE # map fst (end_points p))),
      Min (set (MAX_VALUE # map snd (end_points p))), Max (set (- MAX_VALUE # map snd (end_points p))))"
  by (simp only: path_extent_def foldl_box_step)

lemma analyzeBox_cached: "foundBox point = Some c \<Longrightarrow> analyzeBox q point = point"
  by (simp add: analyzeBox_def)

lemma analyzeBox_fresh:
  assumes "foundBox point = None"
  shows "\<exists>c. foundBox (analyzeBox p point) = Some c \<and>
    (c_minX c, c_maxX c, c_minY c, c_maxY c) = path_extent p \<and>
    path (analyzeBox p point) = path point"
  using assms by (cases "path_extent p") (simp add: analyzeBox_def)

text \<open>
  Claim C2, amended. For a point with a path whose box is not cached yet, \<open>getBox\<close>
  folds the last coordinate pair of every segment, the point where the segment ends
  (a Close segment has none), into the running minimum and maximum of X and of Y, which
  start at \<^verbatim>\<open>MAX_VALUE\<close> and \<^verbatim>\<open>-MAX_VALUE\<close>; the cached box bounds all these end points. The
  control points of a Bezier segment are not looked at. The result is cached: a later
  pass leaves the point as it is, whatever the path, so the geometry is walked once.
\<close>

theorem getBox_caches_box_of_end_points:
  "path point = Some p \<and> foundBox point = None \<longrightarrow>
     (\<exists>c. foundBox (snd (getBox_point acc point)) = Some c \<and>
        c_minX c = Min (set (MAX_VALUE # map fst (end_points p))) \<and>
        c_maxX c = Max (set (- MAX_VALUE # map fst (end_points p))) \<and>
        c_minY c = Min (set (MAX_VALUE # map snd (end_points p))) \<and>
        c_maxY c = Max (set (- MAX_VALUE # map snd (end_points p))) \<and>
        (\<forall>s \<in> set p. \<forall>x y. seg_last_pair s = Some (x, y) \<longrightarrow>
           c_minX c \<le> x \<and> x \<le> c_maxX c \<and> c_minY c \<le> y \<and> y \<le> c_maxY c)) \<and>
     (\<forall>q. analyzeBox q (snd (getBox_point acc point)) = snd (getBox_point acc point)) \<and>
     (\<forall>acc'. snd (getBox_point acc' (snd (getBox_point acc point))) =
        snd (getBox_point acc point))"
proof (intro impI)
  assume a: "path point = Some p \<and> foundBox point = None"
  from a have fb: "foundBox point = None" by simp
  from analyzeBox_fresh [OF fb, of p] obtain c where
    c: "foundBox (analyzeBox p point) = Some c" and
    ext: "(c_minX c, c_maxX c, c_minY c, c_maxY c) = path_extent p" and
    pth: "path (analyzeBox p point) = path point"
    by blast
  have snd_eq: "snd (getBox_point acc point) = analyzeBox p point"
    using a c by (simp add: getBox_point_def Let_def)
  from ext have mm:
    "c_minX c = Min (set (MAX_VALUE # map fst (end_points p)))"
    "c_maxX c = Max (set (- MAX_VALUE # map fst (end_points p)))"
    "c_minY c = Min (set (MAX_VALUE # map snd (end_points p)))"
    "c_maxY c = Max (set (- MAX_VALUE # map snd (end_points p)))"
    by (simp_all add: path_extent_eq)
  have bound: "c_minX c \<le> x \<and> x \<le> c_maxX c \<and> c_minY c \<le> y \<and> y \<le> c_maxY c"
    if "s \<in> set p" and "seg_last_pair s = Some (x, y)" for s x y
  proof -
    from that have "(x, y) \<in> set (end_points p)"
      by (force simp add: end_points_def List.map_filter_def)
    then have "x \<in> set (map fst (end_points p))" "y \<in> set (map snd (end_points p))"
      by force+
    then show ?thesis unfolding mm
      by (auto intro!: Min_le Max_ge)
  qed
  have cached: "analyzeBox q (analyzeBox p point) = analyzeBox p point" for q
    by (rule analyzeBox_cached [OF c])
  have again: "snd (getBox_point acc' (analyzeBox p point)) = analyzeBox p point" for acc'
    using a c pth cached by (simp add: getBox_point_def Let_def)
  show "(\<exists>c. foundBox (snd (getBox_point acc point)) = Some c \<and>
        c_minX c = Min (set (MAX_VALUE # map fst (end_points p))) \<and>
        c_maxX c = Max (set (- MAX_VALUE # map fst (end_points p))) \<and>
        c_minY c = Min (set (MAX_VALUE # map snd (end_points p))) \<and>
        c_maxY c = Max (set (- MAX_VALUE # map snd (end_points p))) \<and>
        (\<forall>s \<in> set p. \<forall>x y. seg_last_pair s = Some (x, y) \<longrightarrow>
           c_minX c \<le> x \<and> x \<le> c_maxX c \<and> c_minY c \<le> y \<and> y \<le> c_maxY c)) \<and>
     (\<forall>q. analyzeBox q (snd (getBox_point acc point)) = snd (getBox_point acc point)) \<and>
     (\<forall>acc'. snd (getBox_point acc' (snd (getBox_point acc point))) =
        snd (getBox_point acc point))"
    unfolding snd_eq using c mm bound cached again by blast
qed


theorem getBox_caches_box_of_end_points_witness:
  "path \<lparr>path = Some [MoveTo 0 0, CurveTo 5 20 5 20 10 0], foundBox = None,
      middleX = None, middleY = None, hc_middle_x = None, hc_middle_y = None,
      labelrank = None, plotX = None, plotY = None, shapeType = None, shapeArgs_d = None\<rparr>
     = Some [MoveTo 0 0, CurveTo 5 20 5 20 10 0] \<and>
   map_option (\<lambda>c. (c_minX c, c_maxX c, c_minY c, c_maxY c))
     (foundBox (snd (getBox_point box_acc_init
        \<lparr>path = Some [MoveTo 0 0, CurveTo 5 20 5 20 10 0], foundBox = None,
         middleX = None, middleY = None, hc_middle_x = None, hc_middle_y = None,
         labelrank = None, plotX = None, plotY = None, shapeType = None,
         shapeArgs_d = None\<rparr>))) = Some (0, 10, 0, 0)"
  using getBox_caches_box_of_end_points [of
      "\<lparr>path = Some [MoveTo 0 0, CurveTo 5 20 5 20 10 0], foundBox = None,
        middleX = None, middleY = None, hc_middle_x = None, hc_middle_y = None,
        labelrank = None, plotX = None, plotY = None, shapeType = None, shapeArgs_d = None\<rparr>"
      "[MoveTo 0 0, CurveTo 5 20 5 20 10 0]" box_acc_init]
    MAX_VALUE_big
  by (auto simp add: end_points_def)

theorem getBox_control_point_counterexample:
  "(5, 20) \<in> set (seg_points (CurveTo 5 20 5 20 10 0)) \<and>
   map_option c_maxY
     (foundBox (snd (getBox_point box_acc_init
        \<lparr>path = Some [MoveTo 0 0, CurveTo 5 20 5 20 10 0], foundBox = None,
         middleX = None, middleY = None, hc_middle_x = None, hc_middle_y = None,
         labelrank = None, plotX = None, plotY = None, shapeType = None,
         shapeArgs_d = None\<rparr>))) = Some 0 \<and>
   \<not> (20::real) \<le> 0"
  using MAX_VALUE_big
  by (simp add: getBox_point_def analyzeBox_def path_extent_def Let_def)











section \<open>Properties of the join\<close>

































lemma js_error_is_TypeError: "e = TypeError" for e :: js_error
  by (cases e) simp

lemma normalize_loop_null_by_index:
  assumes "joinBy0 series = Some ''_i''" and "JNull \<in> set vals"
  shows "normalize_loop series i vals = Inl TypeError"
  using assms(2)
proof (induction vals arbitrary: i)
  case Nil
  then show ?case by simp
next
  case (Cons val vals)
  show ?case
  proof (cases "val = JNull")
    case True
    then show ?thesis using assms(1)
      by (simp add: normalize_item_def set_index_def)
  next
    case False
    with Cons.prems have "JNull \<in> set vals" by simp
    from Cons.IH [OF this, of "Suc i"] show ?thesis
      by (cases "set_index (normalize_item series val) i")
        (simp_all add: assms(1) js_error_is_TypeError)
  qed
qed

lemma setData_null_by_index:
  assumes "joinBy0 series = Some ''_i''" and "JNull \<in> set vals"
  shows "setData series (Some vals) updatePoints = Inl TypeError"
  using normalize_loop_null_by_index [OF assms, of 0] by (simp add: setData_def)

text \<open>
  With the null value inside a record, the join by index does what the scenario
  describes: three entities, the second with \<open>value = null\<close>.
\<close>

lemma setData_null_value_in_record:
  "setData
     \<lparr>joinBy0 = Some ''_i'', joinBy1 = Some ''_i'', options_keys = None,
      pointArrayMap = [''value''], options_allAreas = False,
      mapData = Some [[(''path'', JStr ''M 0 0 L 1 0 L 1 1 Z'')],
                      [(''path'', JStr ''M 1 0 L 2 0 L 2 1 Z'')],
                      [(''path'', JStr ''M 2 0 L 3 0 L 3 1 Z'')]]\<rparr>
     (Some [JNum 1, JObj [(''value'', JNull)], JNum 3]) None =
   Inr (Some [JObj [(''value'', JNum 1), (''_i'', JNum 0)],
              JObj [(''value'', JNull), (''_i'', JNum 1)],
              JObj [(''value'', JNum 3), (''_i'', JNum 2)]], None)"
  by code_simp

text \<open>
  Claim C8 fails on the code. With \<open>joinBy\<close> \<^verbatim>\<open>null\<close> the join key is \<^verbatim>\<open>'_i'\<close>, and the
  first loop of \<open>setData\<close> assigns \<^verbatim>\<open>data[i]._i = i\<close> to every record: for the value data
  \<open>[1, null, 3]\<close> and three shapes, with \<open>allAreas\<close> off, the assignment to the second
  record throws, and no merged list is produced.
\<close>

theorem setData_null_record_by_index_throws:
  "setOptions_joinBy JoinByNull = (Some ''_i'', Some ''_i'') \<and>
   setData
     \<lparr>joinBy0 = Some ''_i'', joinBy1 = Some ''_i'', options_keys = None,
      pointArrayMap = [''value''], options_allAreas = False,
      mapData = Some [[(''path'', JStr ''M 0 0 L 1 0 L 1 1 Z'')],
                      [(''path'', JStr ''M 1 0 L 2 0 L 2 1 Z'')],
                      [(''path'', JStr ''M 2 0 L 3 0 L 3 1 Z'')]]\<rparr>
     (Some [JNum 1, JNull, JNum 3]) None = Inl TypeError"
  by code_simp

end
